theory Spec2Isabelle
  imports Main
begin

section \<open>JSON values and HTTP responses\<close>

text \<open>
  Request bodies (\<^verbatim>\<open>request.get_json()\<close>) and response bodies (\<^verbatim>\<open>jsonify\<close>) are JSON
  values. An object is an association list; a key is read with \<open>map_of\<close>.
\<close>

datatype json =
    JNull
  | JBool bool
  | JInt int
  | JStr string
  | JArr "json list"
  | JObj "(string \<times> json) list"

type_synonym response = "nat \<times> json"

text \<open>
  The exceptions a view function of \<^verbatim>\<open>routes.py\<close> can raise. \<open>NotFound d\<close> is the
  HTTP exception of \<^verbatim>\<open>abort(404, description=d)\<close>; \<open>ValidationError m\<close> carries
  marshmallow's \<^verbatim>\<open>error.messages\<close>; \<open>MethodNotAllowed\<close> is the HTTP exception of a URL
  that matches a rule, but none for the method of the request; \<open>OverflowError\<close> is what the
  SQLite driver raises for an integer parameter beyond 64 bits; the others come from
  SQLAlchemy.
\<close>

datatype exn =
    NoResultFound
  | MultipleResultsFound
  | InvalidRequestError
  | IntegrityError
  | ValidationError "(string \<times> string list) list"
  | NotFound string
  | MethodNotAllowed
  | OverflowError

section \<open>Formatting integers (f-strings)\<close>

definition digit :: "nat \<Rightarrow> char" where
  "digit n = ''0123456789'' ! (n mod 10)"

function show_nat :: "nat \<Rightarrow> string" where
  "show_nat n = (if n < 10 then [digit n] else show_nat (n div 10) @ [digit n])"
  by pat_completeness auto
termination
  by (relation "measure (\<lambda>n. n)") auto

declare show_nat.simps [simp del]

definition show_int :: "int \<Rightarrow> string" where
  "show_int i = (if i < 0 then CHR ''-'' # show_nat (nat (- i)) else show_nat (nat i))"

section \<open>The models\<close>

text \<open>
  Modelled from the spec: \<^verbatim>\<open>paralympics/models.py\<close> is not among the sources. Region has
  the primary key \<open>NOC\<close> (a string), the required display name \<open>region\<close> and the optional
  text \<open>notes\<close>. Event has the integer primary key \<open>id\<close>, generated by the store, and
  further attributes treated as a mapping of field name to scalar value. A stored row has
  its primary key and its required columns, so these are not optional in the records.
  No cascade between the two tables is modelled.
\<close>

record Region =
  NOC :: string
  region :: string
  notes' :: "string option"

record Event =
  id' :: int
  attrs :: "(string \<times> json) list"

text \<open>
  An ORM object is either persistent (loaded from the row whose primary key was \<open>k\<close>,
  carrying its current attribute values) or transient (built from keyword arguments,
  not yet in the database).
\<close>

datatype ('k, 'a) inst =
    Persistent 'k 'a
  | Transient "(string \<times> json) list"

section \<open>The schemas\<close>

text \<open>
  Modelled from the spec: \<^verbatim>\<open>paralympics/schemas.py\<close> is not among the sources. A schema
  is a list of declared fields. In full mode every required field must be present; in
  partial mode only the fields present are validated. A failure enumerates, per offending
  field, the reasons. The Event model's attributes are not enumerated by the spec, so the
  declaration of the Event columns other than \<open>id\<close> is a parameter \<open>em\<close> of every
  operation that needs it.
\<close>

datatype ftype = TStr | TInt

record fspec =
  fname :: string
  ftype :: ftype
  required :: bool
  allow_none :: bool

text \<open>
  Modelled from the spec: the fields of the Region schema, which \<^verbatim>\<open>schemas.py\<close> declares
  and the sources lack. \<open>NOC\<close> and \<open>region\<close> are mandatory, \<open>notes\<close> is optional and may be
  null.
\<close>

definition region_fields :: "fspec list" where
  "region_fields =
     [\<lparr>fname = ''NOC'', ftype = TStr, required = True, allow_none = False\<rparr>,
      \<lparr>fname = ''region'', ftype = TStr, required = True, allow_none = False\<rparr>,
      \<lparr>fname = ''notes'', ftype = TStr, required = False, allow_none = True\<rparr>]"

text \<open>
  Modelled from the spec: the fields of the Event schema are the integer \<open>id\<close>, which the
  store generates when the payload leaves it out, and the declared attributes \<open>em\<close>.
\<close>

definition event_fields :: "fspec list \<Rightarrow> fspec list" where
  "event_fields em =
     \<lparr>fname = ''id'', ftype = TInt, required = False, allow_none = False\<rparr> # em"

text \<open>
  Modelled from the spec: the validation that \<^verbatim>\<open>schema.load\<close> runs. A value must have the
  type of its field, null only where the field allows it; a mandatory field must be
  present unless the load is partial; a key that names no field is refused. The messages
  are collected per field; a payload that is no object is refused as a whole.
\<close>

fun check_value :: "fspec \<Rightarrow> json \<Rightarrow> string list" where
  "check_value f JNull = (if allow_none f then [] else [''Field may not be null.''])"
| "check_value f (JStr s) = (if ftype f = TStr then [] else [''Not a valid integer.''])"
| "check_value f (JInt i) = (if ftype f = TInt then [] else [''Not a valid string.''])"
| "check_value f v =
     (if ftype f = TStr then [''Not a valid string.''] else [''Not a valid integer.''])"

definition field_errors ::
  "bool \<Rightarrow> (string \<times> json) list \<Rightarrow> fspec \<Rightarrow> (string \<times> string list) list" where
  "field_errors partial kv f =
     (case map_of kv (fname f) of
        None \<Rightarrow>
          (if required f \<and> \<not> partial
           then [(fname f, [''Missing data for required field.''])] else [])
      | Some v \<Rightarrow> (if check_value f v = [] then [] else [(fname f, check_value f v)]))"

definition unknown_errors ::
  "fspec list \<Rightarrow> (string \<times> json) list \<Rightarrow> (string \<times> string list) list" where
  "unknown_errors fs kv =
     map (\<lambda>k. (k, [''Unknown field.'']))
       (filter (\<lambda>k. k \<notin> set (map fname fs)) (remdups (map fst kv)))"

definition loaded_data :: "fspec list \<Rightarrow> (string \<times> json) list \<Rightarrow> (string \<times> json) list" where
  "loaded_data fs kv =
     concat (map (\<lambda>f. case map_of kv (fname f) of None \<Rightarrow> [] | Some v \<Rightarrow> [(fname f, v)]) fs)"

definition validate ::
  "fspec list \<Rightarrow> bool \<Rightarrow> json \<Rightarrow> (string \<times> string list) list + (string \<times> json) list" where
  "validate fs partial j =
     (case j of
        JObj kv \<Rightarrow>
          (let errs = concat (map (field_errors partial kv) fs) @ unknown_errors fs kv
           in if errs = [] then Inr (loaded_data fs kv) else Inl errs)
      | _ \<Rightarrow> Inl [(''_schema'', [''Invalid input type.''])])"

section \<open>The database and the session\<close>

text \<open>
  The database holds the committed rows of both tables. \<open>commits\<close> counts the commits that
  completed; it is the only field that is not data of the application. A session is
  opened per request: it sees the database and collects the pending unit of work, which
  \<open>commit\<close> flushes in one transaction.
\<close>

record database =
  regions :: "Region list"
  events :: "Event list"
  commits :: nat

datatype work =
    InsRegion "(string \<times> json) list"
  | UpdRegion string Region
  | DelRegion string
  | InsEvent "(string \<times> json) list"
  | UpdEvent int Event
  | DelEvent int

record session =
  db :: database
  pending :: "work list"

definition begin_session :: "database \<Rightarrow> session" where
  "begin_session d = \<lparr>db = d, pending = []\<rparr>"

subsection \<open>Integers of the store\<close>

text \<open>
  The store is SQLite (\<^verbatim>\<open>conftest.py\<close>): an integer is a signed 64-bit value. Python's
  integers are unbounded, and the driver raises \<^verbatim>\<open>OverflowError\<close> when a statement is given
  an integer parameter outside that range.
\<close>

definition int64 :: "int \<Rightarrow> bool" where
  "int64 i \<longleftrightarrow> - (2 ^ 63) \<le> i \<and> i < 2 ^ 63"

fun storable :: "json \<Rightarrow> bool" where
  "storable (JInt i) = int64 i"
| "storable v = True"

definition bind_param :: "json \<Rightarrow> exn + json" where
  "bind_param v = (if storable v then Inr v else Inl OverflowError)"

subsection \<open>Queries\<close>

definition region_column :: "string \<Rightarrow> (Region \<Rightarrow> json) option" where
  "region_column c =
     (if c = ''NOC'' then Some (\<lambda>r. JStr (NOC r))
      else if c = ''region'' then Some (\<lambda>r. JStr (region r))
      else if c = ''notes'' then Some (\<lambda>r. case notes' r of None \<Rightarrow> JNull | Some t \<Rightarrow> JStr t)
      else None)"

definition event_column :: "fspec list \<Rightarrow> string \<Rightarrow> (Event \<Rightarrow> json) option" where
  "event_column em c =
     (if c = ''id'' then Some (\<lambda>e. JInt (id' e))
      else if c \<in> set (map fname em)
      then Some (\<lambda>e. case map_of (attrs e) c of None \<Rightarrow> JNull | Some v \<Rightarrow> v)
      else None)"

text \<open>
  \<^verbatim>\<open>db.session.execute(db.select(M).filter_by(c=v))\<close>: a keyword that names no attribute of
  the model raises; otherwise the rows whose column equals the value, as persistent
  objects.
\<close>

definition filter_by_region ::
  "session \<Rightarrow> string \<Rightarrow> json \<Rightarrow> exn + (string, Region) inst list" where
  "filter_by_region s c v =
     (case region_column c of
        None \<Rightarrow> Inl InvalidRequestError
      | Some g \<Rightarrow>
          Inr (map (\<lambda>r. Persistent (NOC r) r) (filter (\<lambda>r. g r = v) (regions (db s)))))"

definition filter_by_event ::
  "fspec list \<Rightarrow> session \<Rightarrow> string \<Rightarrow> json \<Rightarrow> exn + (int, Event) inst list" where
  "filter_by_event em s c v =
     (case event_column em c of
        None \<Rightarrow> Inl InvalidRequestError
      | Some g \<Rightarrow>
          Inr (map (\<lambda>e. Persistent (id' e) e) (filter (\<lambda>e. g e = v) (events (db s)))))"

fun scalar_one :: "'a list \<Rightarrow> exn + 'a" where
  "scalar_one [] = Inl NoResultFound"
| "scalar_one [x] = Inr x"
| "scalar_one (x # y # zs) = Inl MultipleResultsFound"

fun scalar_one_or_none :: "'a list \<Rightarrow> exn + 'a option" where
  "scalar_one_or_none [] = Inr None"
| "scalar_one_or_none [x] = Inr (Some x)"
| "scalar_one_or_none (x # y # zs) = Inl MultipleResultsFound"

fun first :: "'a list \<Rightarrow> 'a option" where
  "first [] = None"
| "first (x # xs) = Some x"

subsection \<open>Serialisation\<close>

definition dump_region :: "Region \<Rightarrow> json" where
  "dump_region r =
     JObj [(''NOC'', JStr (NOC r)), (''region'', JStr (region r)),
           (''notes'', case notes' r of None \<Rightarrow> JNull | Some t \<Rightarrow> JStr t)]"

definition dump_event :: "fspec list \<Rightarrow> Event \<Rightarrow> json" where
  "dump_event em e =
     JObj ((''id'', JInt (id' e)) #
           map (\<lambda>f. (fname f, case map_of (attrs e) (fname f) of None \<Rightarrow> JNull | Some v \<Rightarrow> v)) em)"

text \<open>The object an instance stands for, when it is persistent.\<close>

fun dump_region_inst :: "(string, Region) inst \<Rightarrow> json" where
  "dump_region_inst (Persistent k r) = dump_region r"
| "dump_region_inst (Transient kv) = JObj kv"

fun dump_event_inst :: "fspec list \<Rightarrow> (int, Event) inst \<Rightarrow> json" where
  "dump_event_inst em (Persistent k e) = dump_event em e"
| "dump_event_inst em (Transient kv) = JObj kv"

subsection \<open>Deserialisation to instances\<close>

text \<open>
  \<^verbatim>\<open>schema.load(data, instance=i, partial=p)\<close> with \<^verbatim>\<open>load_instance\<close>: the data is validated;
  then the instance given, or else the row found by the primary key in the data, has each
  loaded field assigned; with neither, a new transient object is built from the data.
\<close>

definition setattrs_region :: "(string \<times> json) list \<Rightarrow> Region \<Rightarrow> Region" where
  "setattrs_region kv r =
     \<lparr>NOC = (case map_of kv ''NOC'' of Some (JStr c) \<Rightarrow> c | _ \<Rightarrow> NOC r),
      region = (case map_of kv ''region'' of Some (JStr n) \<Rightarrow> n | _ \<Rightarrow> region r),
      notes' = (case map_of kv ''notes'' of
                 Some (JStr t) \<Rightarrow> Some t | Some _ \<Rightarrow> None | None \<Rightarrow> notes' r)\<rparr>"

definition setattrs_event :: "(string \<times> json) list \<Rightarrow> Event \<Rightarrow> Event" where
  "setattrs_event kv e =
     \<lparr>id' = (case map_of kv ''id'' of Some (JInt i) \<Rightarrow> i | _ \<Rightarrow> id' e),
      attrs = map (\<lambda>(k, v). (k, case map_of kv k of None \<Rightarrow> v | Some w \<Rightarrow> w)) (attrs e)\<rparr>"

definition get_instance_region ::
  "session \<Rightarrow> (string \<times> json) list \<Rightarrow> (string, Region) inst option" where
  "get_instance_region s kv =
     (case map_of kv ''NOC'' of
        Some (JStr c) \<Rightarrow>
          (case filter_by_region s ''NOC'' (JStr c) of Inl e \<Rightarrow> None | Inr rows \<Rightarrow> first rows)
      | _ \<Rightarrow> None)"

text \<open>
  The lookup of an Event by the id of the data is a query with an integer parameter: it
  raises when the id is beyond 64 bits.
\<close>

definition get_instance_event ::
  "fspec list \<Rightarrow> session \<Rightarrow> (string \<times> json) list \<Rightarrow> exn + (int, Event) inst option" where
  "get_instance_event em s kv =
     (case map_of kv ''id'' of
        Some (JInt i) \<Rightarrow>
          (case bind_param (JInt i) of
             Inl e \<Rightarrow> Inl e
           | Inr v \<Rightarrow>
               (case filter_by_event em s ''id'' v of
                  Inl e \<Rightarrow> Inl e
                | Inr rows \<Rightarrow> Inr (first rows)))
      | _ \<Rightarrow> Inr None)"

fun assign_region :: "(string \<times> json) list \<Rightarrow> (string, Region) inst \<Rightarrow> (string, Region) inst" where
  "assign_region kv (Persistent k r) = Persistent k (setattrs_region kv r)"
| "assign_region kv (Transient kv0) = Transient (kv @ kv0)"

fun assign_event :: "(string \<times> json) list \<Rightarrow> (int, Event) inst \<Rightarrow> (int, Event) inst" where
  "assign_event kv (Persistent k e) = Persistent k (setattrs_event kv e)"
| "assign_event kv (Transient kv0) = Transient (kv @ kv0)"

definition load_region ::
  "session \<Rightarrow> json \<Rightarrow> (string, Region) inst option \<Rightarrow> bool \<Rightarrow> exn + (string, Region) inst" where
  "load_region s j instance partial =
     (case validate region_fields partial j of
        Inl errs \<Rightarrow> Inl (ValidationError errs)
      | Inr kv \<Rightarrow>
          (case (case instance of Some i \<Rightarrow> Some i | None \<Rightarrow> get_instance_region s kv) of
             Some i \<Rightarrow> Inr (assign_region kv i)
           | None \<Rightarrow> Inr (Transient kv)))"

definition load_event ::
  "fspec list \<Rightarrow> session \<Rightarrow> json \<Rightarrow> (int, Event) inst option \<Rightarrow> bool \<Rightarrow> exn + (int, Event) inst" where
  "load_event em s j instance partial =
     (case validate (event_fields em) partial j of
        Inl errs \<Rightarrow> Inl (ValidationError errs)
      | Inr kv \<Rightarrow>
          (case (case instance of
                   Some i \<Rightarrow> Inr (Some i)
                 | None \<Rightarrow> get_instance_event em s kv) of
             Inl e \<Rightarrow> Inl e
           | Inr (Some i) \<Rightarrow> Inr (assign_event kv i)
           | Inr None \<Rightarrow> Inr (Transient kv)))"

subsection \<open>The unit of work\<close>

fun session_add_region :: "(string, Region) inst \<Rightarrow> session \<Rightarrow> session" where
  "session_add_region (Persistent k r) s = s\<lparr>pending := pending s @ [UpdRegion k r]\<rparr>"
| "session_add_region (Transient kv) s = s\<lparr>pending := pending s @ [InsRegion kv]\<rparr>"

fun session_add_event :: "(int, Event) inst \<Rightarrow> session \<Rightarrow> session" where
  "session_add_event (Persistent k e) s = s\<lparr>pending := pending s @ [UpdEvent k e]\<rparr>"
| "session_add_event (Transient kv) s = s\<lparr>pending := pending s @ [InsEvent kv]\<rparr>"

fun session_delete_region :: "(string, Region) inst \<Rightarrow> session \<Rightarrow> session" where
  "session_delete_region (Persistent k r) s = s\<lparr>pending := pending s @ [DelRegion k]\<rparr>"
| "session_delete_region (Transient kv) s = s"

fun session_delete_event :: "(int, Event) inst \<Rightarrow> session \<Rightarrow> session" where
  "session_delete_event (Persistent k e) s = s\<lparr>pending := pending s @ [DelEvent k]\<rparr>"
| "session_delete_event (Transient kv) s = s"

text \<open>
  The key the store generates for an Event inserted without one: 1 in an empty table, else
  one more than the largest key. When the largest key is the largest 64-bit integer,
  SQLite looks for an unused positive key at random; the model takes the least one.
\<close>

definition unused_id :: "int list \<Rightarrow> int" where
  "unused_id ids = hd (filter (\<lambda>i. i \<notin> set ids) (map int [1 ..< length ids + 2]))"

definition next_id :: "Event list \<Rightarrow> int" where
  "next_id es =
     (case es of
        [] \<Rightarrow> 1
      | e # es' \<Rightarrow>
          (let m = fold max (map id' es') (id' e)
           in if m < 2 ^ 63 - 1 then m + 1 else unused_id (map id' es)))"

text \<open>
  The constraint a column puts on an inserted row: a column without a default (a required
  field) needs a value, and a column that is not nullable refuses null. A column left out
  is stored as null, the declared defaults being unknown.
\<close>

definition not_null :: "(string \<times> json) list \<Rightarrow> fspec \<Rightarrow> bool" where
  "not_null kv f =
     (case map_of kv (fname f) of
        None \<Rightarrow> \<not> required f
      | Some v \<Rightarrow> allow_none f \<or> v \<noteq> JNull)"

text \<open>
  One statement of the flush. The values of an Event row are parameters of the statement:
  an integer beyond 64 bits raises before the store sees the row.
\<close>

fun flush1 :: "fspec list \<Rightarrow> work \<Rightarrow> database \<Rightarrow> exn + database" where
  "flush1 em (InsRegion kv) d =
     (case (map_of kv ''NOC'', map_of kv ''region'') of
        (Some (JStr c), Some (JStr n)) \<Rightarrow>
          (if c \<in> set (map NOC (regions d)) then Inl IntegrityError
           else Inr (d\<lparr>regions := regions d @
                  [\<lparr>NOC = c, region = n,
                    notes' = (case map_of kv ''notes'' of Some (JStr t) \<Rightarrow> Some t | _ \<Rightarrow> None)\<rparr>]\<rparr>))
      | _ \<Rightarrow> Inl IntegrityError)"
| "flush1 em (UpdRegion k r) d =
     (if NOC r \<noteq> k \<and> NOC r \<in> set (map NOC (regions d)) then Inl IntegrityError
      else Inr (d\<lparr>regions := map (\<lambda>x. if NOC x = k then r else x) (regions d)\<rparr>))"
| "flush1 em (DelRegion k) d =
     Inr (d\<lparr>regions := filter (\<lambda>x. NOC x \<noteq> k) (regions d)\<rparr>)"
| "flush1 em (InsEvent kv) d =
     (if \<not> list_all storable (map snd kv) then Inl OverflowError
      else
        (let i = (case map_of kv ''id'' of Some (JInt i) \<Rightarrow> i | _ \<Rightarrow> next_id (events d))
         in if i \<in> set (map id' (events d)) \<or> \<not> list_all (not_null kv) em
            then Inl IntegrityError
            else Inr (d\<lparr>events := events d @
                   [\<lparr>id' = i,
                     attrs = map (\<lambda>f. (fname f,
                               case map_of kv (fname f) of None \<Rightarrow> JNull | Some v \<Rightarrow> v)) em\<rparr>]\<rparr>)))"
| "flush1 em (UpdEvent k e) d =
     (if \<not> int64 (id' e) \<or> \<not> list_all storable (map snd (attrs e)) then Inl OverflowError
      else if id' e \<noteq> k \<and> id' e \<in> set (map id' (events d)) then Inl IntegrityError
      else Inr (d\<lparr>events := map (\<lambda>x. if id' x = k then e else x) (events d)\<rparr>))"
| "flush1 em (DelEvent k) d =
     Inr (d\<lparr>events := filter (\<lambda>x. id' x \<noteq> k) (events d)\<rparr>)"

fun flush :: "fspec list \<Rightarrow> work list \<Rightarrow> database \<Rightarrow> exn + database" where
  "flush em [] d = Inr d"
| "flush em (w # ws) d = (case flush1 em w d of Inl e \<Rightarrow> Inl e | Inr d' \<Rightarrow> flush em ws d')"

text \<open>
  \<^verbatim>\<open>db.session.commit()\<close>: the pending work is flushed and becomes durable, or the
  transaction is rolled back and the exception raised.
\<close>

definition commit :: "fspec list \<Rightarrow> session \<Rightarrow> exn option \<times> session" where
  "commit em s =
     (case flush em (pending s) (db s) of
        Inl e \<Rightarrow> (Some e, s\<lparr>pending := []\<rparr>)
      | Inr d \<Rightarrow> (None, \<lparr>db = d\<lparr>commits := Suc (commits d)\<rparr>, pending = []\<rparr>))"

section \<open>The view functions of routes.py\<close>

text \<open>
  A view function takes the session of its request and returns the response, or the
  exception it raises, together with the session. An event key is the integer the path
  segment denotes. \<^verbatim>\<open>get_event\<close> and \<^verbatim>\<open>event_update\<close> receive the segment as text and
  the store compares it with the integer column; \<^verbatim>\<open>delete_event\<close> receives a Python
  integer from the \<^verbatim>\<open>int\<close> converter and gives it to the query as a parameter.
\<close>

definition resource_not_found :: "string \<Rightarrow> response" where
  "resource_not_found description =
     (404, JObj [(''error'', JStr (''404 Not Found: '' @ description))])"

definition handle_validation_error :: "(string \<times> string list) list \<Rightarrow> response" where
  "handle_validation_error messages =
     (400, JObj (map (\<lambda>(k, ms). (k, JArr (map JStr ms))) messages))"

definition get_regions :: "session \<Rightarrow> (exn + response) \<times> session" where
  "get_regions s = (Inr (200, JArr (map dump_region (regions (db s)))), s)"

definition get_region :: "session \<Rightarrow> string \<Rightarrow> (exn + response) \<times> session" where
  "get_region s code =
     (case filter_by_region s ''NOC'' (JStr code) of
        Inl e \<Rightarrow> (Inl e, s)
      | Inr rows \<Rightarrow>
          (case scalar_one rows of
             Inl NoResultFound \<Rightarrow> (Inl (NotFound ''Region not found.''), s)
           | Inl e \<Rightarrow> (Inl e, s)
           | Inr r \<Rightarrow> (Inr (200, dump_region_inst r), s)))"

definition get_events :: "fspec list \<Rightarrow> session \<Rightarrow> (exn + response) \<times> session" where
  "get_events em s = (Inr (200, JArr (map (dump_event em) (events (db s)))), s)"

definition get_event :: "fspec list \<Rightarrow> session \<Rightarrow> int \<Rightarrow> (exn + response) \<times> session" where
  "get_event em s event_id =
     (case filter_by_event em s ''id'' (JInt event_id) of
        Inl e \<Rightarrow> (Inl e, s)
      | Inr rows \<Rightarrow>
          (case scalar_one rows of
             Inl e \<Rightarrow> (Inl e, s)
           | Inr ev \<Rightarrow> (Inr (200, dump_event_inst em ev), s)))"

text \<open>The primary key an instance has once it is flushed: what \<^verbatim>\<open>event.id\<close> reads.\<close>

fun event_key :: "database \<Rightarrow> (int, Event) inst \<Rightarrow> int" where
  "event_key d0 (Persistent k e) = id' e"
| "event_key d0 (Transient kv) =
     (case map_of kv ''id'' of Some (JInt i) \<Rightarrow> i | _ \<Rightarrow> next_id (events d0))"

fun region_key :: "(string, Region) inst \<Rightarrow> string" where
  "region_key (Persistent k r) = NOC r"
| "region_key (Transient kv) = (case map_of kv ''NOC'' of Some (JStr c) \<Rightarrow> c | _ \<Rightarrow> ''None'')"

definition add_event :: "fspec list \<Rightarrow> session \<Rightarrow> json \<Rightarrow> (exn + response) \<times> session" where
  "add_event em s ev_json =
     (case load_event em s ev_json None False of
        Inl (ValidationError err) \<Rightarrow> (Inr (handle_validation_error err), s)
      | Inl e \<Rightarrow> (Inl e, s)
      | Inr event \<Rightarrow>
          (let s1 = session_add_event event s in
           case commit em s1 of
             (Some e, s2) \<Rightarrow> (Inl e, s2)
           | (None, s2) \<Rightarrow>
               (Inr (201, JObj [(''message'',
                  JStr (''Event added with id= '' @ show_int (event_key (db s) event)))]), s2)))"

definition add_region :: "fspec list \<Rightarrow> session \<Rightarrow> json \<Rightarrow> (exn + response) \<times> session" where
  "add_region em s json_data =
     (case load_region s json_data None False of
        Inl (ValidationError err) \<Rightarrow> (Inr (handle_validation_error err), s)
      | Inl e \<Rightarrow> (Inl e, s)
      | Inr r \<Rightarrow>
          (let s1 = session_add_region r s in
           case commit em s1 of
             (Some e, s2) \<Rightarrow> (Inl e, s2)
           | (None, s2) \<Rightarrow>
               (Inr (201, JObj [(''message'',
                  JStr (''Region added with NOC= '' @ region_key r))]), s2)))"

definition delete_event :: "fspec list \<Rightarrow> session \<Rightarrow> int \<Rightarrow> (exn + response) \<times> session" where
  "delete_event em s event_id =
     (case bind_param (JInt event_id) of
        Inl e \<Rightarrow> (Inl e, s)
      | Inr v \<Rightarrow>
          (case filter_by_event em s ''id'' v of
             Inl e \<Rightarrow> (Inl e, s)
           | Inr rows \<Rightarrow>
               (case scalar_one rows of
                  Inl e \<Rightarrow> (Inl e, s)
                | Inr event \<Rightarrow>
                    (let s1 = session_delete_event event s in
                     case commit em s1 of
                       (Some e, s2) \<Rightarrow> (Inl e, s2)
                     | (None, s2) \<Rightarrow>
                         (Inr (200, JObj [(''message'',
                            JStr (''Event '' @ show_int event_id @ '' deleted''))]), s2)))))"

definition delete_region :: "fspec list \<Rightarrow> session \<Rightarrow> string \<Rightarrow> (exn + response) \<times> session" where
  "delete_region em s noc_code =
     (case filter_by_region s ''NOC'' (JStr noc_code) of
        Inl e \<Rightarrow> (Inl e, s)
      | Inr rows \<Rightarrow>
          (case scalar_one rows of
             Inl e \<Rightarrow> (Inl e, s)
           | Inr r \<Rightarrow>
               (let s1 = session_delete_region r s in
                case commit em s1 of
                  (Some e, s2) \<Rightarrow> (Inl e, s2)
                | (None, s2) \<Rightarrow>
                    (Inr (200, JObj [(''message'',
                       JStr (''Region '' @ noc_code @ '' deleted''))]), s2))))"

definition event_update ::
  "fspec list \<Rightarrow> session \<Rightarrow> int \<Rightarrow> json \<Rightarrow> (exn + response) \<times> session" where
  "event_update em s event_id event_json =
     (case filter_by_event em s ''event_id'' (JInt event_id) of
        Inl e \<Rightarrow> (Inl e, s)
      | Inr rows \<Rightarrow>
          (case scalar_one_or_none rows of
             Inl e \<Rightarrow> (Inl e, s)
           | Inr existing_event \<Rightarrow>
               (case load_event em s event_json existing_event True of
                  Inl e \<Rightarrow> (Inl e, s)
                | Inr event_updated \<Rightarrow>
                    (let s1 = session_add_event event_updated s in
                     case commit em s1 of
                       (Some e, s2) \<Rightarrow> (Inl e, s2)
                     | (None, s2) \<Rightarrow>
                         (case filter_by_event em s2 ''event_id'' (JInt event_id) of
                            Inl e \<Rightarrow> (Inl e, s2)
                          | Inr rows' \<Rightarrow>
                              (case scalar_one_or_none rows' of
                                 Inl e \<Rightarrow> (Inl e, s2)
                               | Inr None \<Rightarrow> (Inr (200, JObj []), s2)
                               | Inr (Some updated_event) \<Rightarrow>
                                   (Inr (200, dump_event_inst em updated_event), s2)))))))"

definition region_update ::
  "fspec list \<Rightarrow> session \<Rightarrow> string \<Rightarrow> json \<Rightarrow> (exn + response) \<times> session" where
  "region_update em s noc_code region_json =
     (case filter_by_region s ''NOC'' (JStr noc_code) of
        Inl e \<Rightarrow> (Inl e, s)
      | Inr rows \<Rightarrow>
          (case scalar_one_or_none rows of
             Inl e \<Rightarrow> (Inl e, s)
           | Inr existing_region \<Rightarrow>
               (case load_region s region_json existing_region True of
                  Inl e \<Rightarrow> (Inl e, s)
                | Inr region_updated \<Rightarrow>
                    (let s1 = session_add_region region_updated s in
                     case commit em s1 of
                       (Some e, s2) \<Rightarrow> (Inl e, s2)
                     | (None, s2) \<Rightarrow>
                         (case filter_by_region s2 ''NOC'' (JStr noc_code) of
                            Inl e \<Rightarrow> (Inl e, s2)
                          | Inr rows' \<Rightarrow>
                              (case scalar_one_or_none rows' of
                                 Inl e \<Rightarrow> (Inl e, s2)
                               | Inr None \<Rightarrow> (Inr (200, JObj []), s2)
                               | Inr (Some updated_region) \<Rightarrow>
                                   (Inr (200, dump_region_inst updated_region), s2)))))))"

section \<open>Routing and the registered error handlers\<close>

datatype request =
    GET_regions
  | GET_region string
  | GET_events
  | GET_event int
  | POST_events json
  | POST_regions json
  | DELETE_event int
  | DELETE_region string
  | PATCH_event int json
  | PATCH_region string json

text \<open>
  The URL rules. \<^verbatim>\<open>/regions/<code>\<close> and \<^verbatim>\<open>/regions/<noc_code>\<close> take a segment that is not
  empty and has no slash; any other path under \<^verbatim>\<open>/regions/\<close> matches no rule: 404.
  \<^verbatim>\<open>/events/<event_id>\<close> (GET, PATCH) takes any such segment, so every integer;
  \<^verbatim>\<open>/events/<int:event_id>\<close> (DELETE) takes unsigned digits only, and a DELETE with a
  negative number matches the rule of GET and PATCH alone: 405.
\<close>

definition string_segment :: "string \<Rightarrow> bool" where
  "string_segment c \<longleftrightarrow> c \<noteq> [] \<and> CHR ''/'' \<notin> set c"

definition url_not_found :: string where
  "url_not_found =
     ''The requested URL was not found on the server. If you entered the URL manually '' @
     ''please check your spelling and try again.''"

fun route :: "fspec list \<Rightarrow> session \<Rightarrow> request \<Rightarrow> (exn + response) \<times> session" where
  "route em s GET_regions = get_regions s"
| "route em s (GET_region code) =
     (if string_segment code then get_region s code else (Inl (NotFound url_not_found), s))"
| "route em s GET_events = get_events em s"
| "route em s (GET_event k) = get_event em s k"
| "route em s (POST_events j) = add_event em s j"
| "route em s (POST_regions j) = add_region em s j"
| "route em s (DELETE_event k) =
     (if 0 \<le> k then delete_event em s k else (Inl MethodNotAllowed, s))"
| "route em s (DELETE_region code) =
     (if string_segment code then delete_region em s code
      else (Inl (NotFound url_not_found), s))"
| "route em s (PATCH_event k j) = event_update em s k j"
| "route em s (PATCH_region code j) =
     (if string_segment code then region_update em s code j
      else (Inl (NotFound url_not_found), s))"

text \<open>
  \<^verbatim>\<open>@app.errorhandler(404)\<close> and \<^verbatim>\<open>@app.errorhandler(ValidationError)\<close> turn these two
  exceptions into responses. No other exception has a handler: \<open>MethodNotAllowed\<close>, an
  HTTP exception, is answered with its own status 405, and any other ends the request in
  a server error, status 500.
\<close>

fun errorhandler :: "exn + response \<Rightarrow> exn + response" where
  "errorhandler (Inl (NotFound description)) = Inr (resource_not_found description)"
| "errorhandler (Inl (ValidationError messages)) = Inr (handle_validation_error messages)"
| "errorhandler r = r"

fun status :: "exn + response \<Rightarrow> nat" where
  "status (Inr (code, body)) = code"
| "status (Inl MethodNotAllowed) = 405"
| "status (Inl e) = 500"

text \<open>One request: a fresh session, the view function, the error handlers.\<close>

definition serve :: "fspec list \<Rightarrow> database \<Rightarrow> request \<Rightarrow> (exn + response) \<times> database" where
  "serve em d req =
     (case route em (begin_session d) req of (r, s) \<Rightarrow> (errorhandler r, db s))"

text \<open>The keys of a table are unique: the primary-key constraint of the store.\<close>

definition unique_keys :: "database \<Rightarrow> bool" where
  "unique_keys d \<longleftrightarrow> distinct (map NOC (regions d)) \<and> distinct (map id' (events d))"

text \<open>A database the store can hold: unique keys, and Event keys that are 64-bit integers.\<close>

definition wf_db :: "database \<Rightarrow> bool" where
  "wf_db d \<longleftrightarrow> unique_keys d \<and> list_all (\<lambda>e. int64 (id' e)) (events d)"

text \<open>The GET routes, as opposed to the routes that change the store.\<close>

fun is_get :: "request \<Rightarrow> bool" where
  "is_get GET_regions = True"
| "is_get (GET_region code) = True"
| "is_get GET_events = True"
| "is_get (GET_event k) = True"
| "is_get req = False"

text \<open>
  What a view function that changes the store does with commits: either the database is
  as it was, or one commit completed; and a response that is not an error had its commit.
\<close>

definition one_commit :: "session \<Rightarrow> (exn + response) \<times> session \<Rightarrow> bool" where
  "one_commit s p \<longleftrightarrow>
     (db (snd p) = db s \<or> commits (db (snd p)) = Suc (commits (db s))) \<and>
     (status (errorhandler (fst p)) < 400 \<longrightarrow> commits (db (snd p)) = Suc (commits (db s)))"

subsection \<open>A small database to run the handlers on\<close>

definition demo_em :: "fspec list" where
  "demo_em =
     [\<lparr>fname = ''type'', ftype = TStr, required = True, allow_none = False\<rparr>,
      \<lparr>fname = ''year'', ftype = TInt, required = False, allow_none = True\<rparr>]"

definition demo_db :: database where
  "demo_db =
     \<lparr>regions = [\<lparr>NOC = ''GBR'', region = ''Great Britain'', notes' = None\<rparr>],
      events = [\<lparr>id' = 1, attrs = [(''type'', JStr ''summer''), (''year'', JInt 1960)]\<rparr>],
      commits = 0\<rparr>"

text \<open>Two rows in each table.\<close>

definition demo_db2 :: database where
  "demo_db2 =
     \<lparr>regions = [\<lparr>NOC = ''GBR'', region = ''Great Britain'', notes' = None\<rparr>,
                 \<lparr>NOC = ''FRA'', region = ''France'', notes' = Some ''host''\<rparr>],
      events = [\<lparr>id' = 1, attrs = [(''type'', JStr ''summer''), (''year'', JInt 1960)]\<rparr>,
                \<lparr>id' = 2, attrs = [(''type'', JStr ''winter''), (''year'', JInt 1976)]\<rparr>],
      commits = 0\<rparr>"

text \<open>
  The database after POST /regions with NOC \<^verbatim>\<open>A/B\<close> and POST /events with id \<^verbatim>\<open>-5\<close>, both
  valid payloads, on \<open>demo_db\<close>.
\<close>

definition demo_db3 :: database where
  "demo_db3 =
     \<lparr>regions = [\<lparr>NOC = ''GBR'', region = ''Great Britain'', notes' = None\<rparr>,
                 \<lparr>NOC = ''A/B'', region = ''Slash'', notes' = None\<rparr>],
      events = [\<lparr>id' = 1, attrs = [(''type'', JStr ''summer''), (''year'', JInt 1960)]\<rparr>,
                \<lparr>id' = - 5, attrs = [(''type'', JStr ''summer''), (''year'', JNull)]\<rparr>],
      commits = 2\<rparr>"

section \<open>Basic facts\<close>

lemma filter_by_region_NOC [simp]:
  "filter_by_region s ''NOC'' v =
     Inr (map (\<lambda>r. Persistent (NOC r) r) (filter (\<lambda>r. JStr (NOC r) = v) (regions (db s))))"
  by (simp add: filter_by_region_def region_column_def)

lemma filter_by_event_id [simp]:
  "filter_by_event em s ''id'' v =
     Inr (map (\<lambda>e. Persistent (id' e) e) (filter (\<lambda>e. JInt (id' e) = v) (events (db s))))"
  by (simp add: filter_by_event_def event_column_def)

lemma db_session_add_region [simp]: "db (session_add_region i s) = db s"
  by (cases i) simp_all

lemma db_session_add_event [simp]: "db (session_add_event i s) = db s"
  by (cases i) simp_all

lemma db_session_delete_region [simp]: "db (session_delete_region i s) = db s"
  by (cases i) simp_all

lemma db_session_delete_event [simp]: "db (session_delete_event i s) = db s"
  by (cases i) simp_all

lemma status_handle_validation_error [simp]:
  "status (Inr (handle_validation_error m)) = 400"
  by (simp add: handle_validation_error_def)

lemma status_resource_not_found [simp]:
  "status (Inr (resource_not_found m)) = 404"
  by (simp add: resource_not_found_def)

lemma status_errorhandler_Inl [simp]: "\<not> status (errorhandler (Inl e)) < 400"
  by (cases e) simp_all

section \<open>Commits\<close>

lemma flush1_commits: "flush1 em w d = Inr d' \<Longrightarrow> commits d' = commits d"
  by (cases w) (auto simp: Let_def split: option.splits json.splits if_splits)

lemma flush_commits: "flush em ws d = Inr d' \<Longrightarrow> commits d' = commits d"
proof (induction ws arbitrary: d)
  case Nil
  then show ?case by simp
next
  case (Cons w ws)
  then show ?case by (auto split: sum.splits dest: flush1_commits)
qed

lemma commit_fails: "commit em s = (Some e, s') \<Longrightarrow> db s' = db s"
  by (auto simp: commit_def split: sum.splits)

lemma commit_done: "commit em s = (None, s') \<Longrightarrow> commits (db s') = Suc (commits (db s))"
  by (auto simp: commit_def split: sum.splits dest: flush_commits)

lemma one_commit_add_region: "one_commit s (add_region em s j)"
  unfolding one_commit_def add_region_def
  by (auto simp: Let_def split: sum.splits exn.splits option.splits prod.splits
      dest: commit_fails commit_done)

lemma one_commit_add_event: "one_commit s (add_event em s j)"
  unfolding one_commit_def add_event_def
  by (auto simp: Let_def split: sum.splits exn.splits option.splits prod.splits
      dest: commit_fails commit_done)

lemma one_commit_delete_region: "one_commit s (delete_region em s c)"
  unfolding one_commit_def delete_region_def
  by (auto simp: Let_def split: sum.splits exn.splits option.splits prod.splits
      dest: commit_fails commit_done)

lemma one_commit_delete_event: "one_commit s (delete_event em s k)"
  unfolding one_commit_def delete_event_def
  by (auto simp: Let_def split: sum.splits exn.splits option.splits prod.splits
      dest: commit_fails commit_done)

lemma one_commit_region_update: "one_commit s (region_update em s c j)"
  unfolding one_commit_def region_update_def
  by (auto simp: Let_def split: sum.splits exn.splits option.splits prod.splits
      dest: commit_fails commit_done)

lemma one_commit_event_update: "one_commit s (event_update em s k j)"
  unfolding one_commit_def event_update_def
  by (auto simp: Let_def split: sum.splits exn.splits option.splits prod.splits
      dest: commit_fails commit_done)

lemma one_commit_raise: "one_commit s (Inl e, s)"
  by (simp add: one_commit_def)

lemma one_commit_route: "\<not> is_get req \<Longrightarrow> one_commit s (route em s req)"
  by (cases req)
    (simp_all add: one_commit_add_region one_commit_add_event one_commit_delete_region
      one_commit_delete_event one_commit_region_update one_commit_event_update
      one_commit_raise)

lemma get_route_session: "is_get req \<Longrightarrow> snd (route em s req) = s"
  by (cases req)
    (auto simp: get_regions_def get_region_def get_events_def get_event_def
      split: sum.splits exn.splits)

lemma fst_serve: "fst (serve em d req) = errorhandler (fst (route em (begin_session d) req))"
  by (simp add: serve_def split_beta)

lemma snd_serve: "snd (serve em d req) = db (snd (route em (begin_session d) req))"
  by (simp add: serve_def split_beta)

lemma serve_get: "is_get req \<Longrightarrow> snd (serve em d req) = d"
proof -
  assume "is_get req"
  then have "snd (route em (begin_session d) req) = begin_session d"
    by (rule get_route_session)
  then show ?thesis
    by (simp add: snd_serve begin_session_def)
qed

lemma serve_one_commit:
  assumes "\<not> is_get req"
  shows "(snd (serve em d req) = d \<or> commits (snd (serve em d req)) = Suc (commits d)) \<and>
         (status (fst (serve em d req)) < 400 \<longrightarrow>
            commits (snd (serve em d req)) = Suc (commits d))"
proof -
  from assms have "one_commit (begin_session d) (route em (begin_session d) req)"
    by (rule one_commit_route)
  then show ?thesis
    by (simp add: one_commit_def fst_serve snd_serve begin_session_def)
qed

section \<open>Validation failures in POST\<close>

lemma serve_post_regions_invalid:
  "validate region_fields False j = Inl errs \<Longrightarrow>
     serve em d (POST_regions j) = (Inr (handle_validation_error errs), d)"
  by (simp add: serve_def add_region_def load_region_def begin_session_def)

lemma serve_post_events_invalid:
  "validate (event_fields em) False j = Inl errs \<Longrightarrow>
     serve em d (POST_events j) = (Inr (handle_validation_error errs), d)"
  by (simp add: serve_def add_event_def load_event_def begin_session_def)

section \<open>Absent keys\<close>

text \<open>
  Claim C1: a PATCH whose path key matches no stored entity answers 404, the existence
  being checked before the partial update is applied, and no update is applied.
  The view functions do not do this. \<^verbatim>\<open>region_update\<close> reads the row with
  \<^verbatim>\<open>scalar_one_or_none\<close> and passes the result on unchecked: with no row, the loaded
  data becomes a new Region, which is committed, and the answer is 200.
  \<^verbatim>\<open>event_update\<close> ends in a server error instead of 404.
\<close>

theorem patch_absent_key_is_applied:
  "serve demo_em demo_db
     (PATCH_region ''ZZZ'' (JObj [(''NOC'', JStr ''ZZZ''), (''region'', JStr ''Nowhere'')])) =
   (Inr (200, JObj [(''NOC'', JStr ''ZZZ''), (''region'', JStr ''Nowhere''), (''notes'', JNull)]),
    \<lparr>regions = [\<lparr>NOC = ''GBR'', region = ''Great Britain'', notes' = None\<rparr>,
                \<lparr>NOC = ''ZZZ'', region = ''Nowhere'', notes' = None\<rparr>],
     events = events demo_db, commits = 1\<rparr>)
   \<and> serve demo_em demo_db (PATCH_event 9 (JObj [(''type'', JStr ''winter'')])) =
     (Inl InvalidRequestError, demo_db)"
  by code_simp

text \<open>
  Claim C2: the Event PATCH view looks the event up by its primary key \<open>id\<close>, so that a
  PATCH to the key of a stored Event finds that event as the merge target.
  \<^verbatim>\<open>event_update\<close> filters by \<^verbatim>\<open>event_id\<close>, not by \<^verbatim>\<open>id\<close> as \<^verbatim>\<open>get_event\<close> and
  \<^verbatim>\<open>delete_event\<close> do: for the stored event 1, GET finds it and PATCH raises.
\<close>

theorem event_update_lookup_not_by_id:
  "fst (serve demo_em demo_db (GET_event 1)) =
     Inr (200, JObj [(''id'', JInt 1), (''type'', JStr ''summer''), (''year'', JInt 1960)])
   \<and> serve demo_em demo_db (PATCH_event 1 (JObj [(''type'', JStr ''winter'')])) =
     (Inl InvalidRequestError, demo_db)"
  by code_simp

text \<open>
  Claim C3: a GET by key answers 404 with a JSON error body when no entity has the key,
  and 200 with the entity otherwise. \<^verbatim>\<open>get_region\<close> does; \<^verbatim>\<open>get_event\<close> lets the
  \<^verbatim>\<open>NoResultFound\<close> of \<^verbatim>\<open>scalar_one\<close> escape, which no error handler is registered
  for: the request ends in a server error.
\<close>

theorem get_event_absent_key_raises:
  "serve demo_em demo_db (GET_event 9) = (Inl NoResultFound, demo_db)
   \<and> status (fst (serve demo_em demo_db (GET_event 9))) = 500
   \<and> fst (serve demo_em demo_db (GET_region ''ZZZ'')) =
     Inr (404, JObj [(''error'', JStr ''404 Not Found: Region not found.'')])"
  by code_simp

text \<open>
  Claim C4: a DELETE whose key matches no stored entity, also one deleted before, answers
  404 with a JSON error body. Both delete views let the \<^verbatim>\<open>NoResultFound\<close> of
  \<^verbatim>\<open>scalar_one\<close> escape: a server error, the first time and after a deletion.
\<close>

theorem delete_absent_key_raises:
  "serve demo_em demo_db (DELETE_region ''ZZZ'') = (Inl NoResultFound, demo_db)
   \<and> serve demo_em demo_db (DELETE_event 9) = (Inl NoResultFound, demo_db)
   \<and> fst (serve demo_em (snd (serve demo_em demo_db (DELETE_region ''GBR''))) (DELETE_region ''GBR''))
       = Inl NoResultFound
   \<and> fst (serve demo_em (snd (serve demo_em demo_db (DELETE_event 1))) (DELETE_event 1))
       = Inl NoResultFound"
  by code_simp

section \<open>Commits and atomicity\<close>

text \<open>
  Claim C8: every handler completes at most one commit, and a request in which no commit
  completed leaves the database as it was; in particular a POST whose payload fails
  validation answers with the validation messages and changes nothing.
\<close>

theorem at_most_one_commit:
  "commits (snd (serve em d req)) \<le> Suc (commits d)
   \<and> (commits (snd (serve em d req)) = commits d \<longrightarrow> snd (serve em d req) = d)
   \<and> (validate region_fields False j = Inl errs \<longrightarrow>
        serve em d (POST_regions j) = (Inr (handle_validation_error errs), d))
   \<and> (validate (event_fields em) False j' = Inl errs' \<longrightarrow>
        serve em d (POST_events j') = (Inr (handle_validation_error errs'), d))"
proof -
  have "snd (serve em d req) = d \<or> commits (snd (serve em d req)) = Suc (commits d)"
  proof (cases "is_get req")
    case True
    then show ?thesis by (simp add: serve_get)
  next
    case False
    then show ?thesis using serve_one_commit [of req em d] by blast
  qed
  then have "commits (snd (serve em d req)) \<le> Suc (commits d)"
    and "commits (snd (serve em d req)) = commits d \<longrightarrow> snd (serve em d req) = d"
    by auto
  then show ?thesis
    by (simp add: serve_post_regions_invalid serve_post_events_invalid)
qed

theorem at_most_one_commit_witness:
  "validate region_fields False (JObj [(''NOC'', JStr ''NEW'')]) =
     Inl [(''region'', [''Missing data for required field.''])]
   \<and> validate (event_fields demo_em) False (JObj [(''year'', JInt 2000)]) =
     Inl [(''type'', [''Missing data for required field.''])]
   \<and> serve demo_em demo_db (POST_regions (JObj [(''NOC'', JStr ''NEW'')])) =
     (Inr (400, JObj [(''region'', JArr [JStr ''Missing data for required field.''])]), demo_db)
   \<and> serve demo_em demo_db (POST_events (JObj [(''year'', JInt 2000)])) =
     (Inr (400, JObj [(''type'', JArr [JStr ''Missing data for required field.''])]), demo_db)
   \<and> commits (snd (serve demo_em demo_db (DELETE_region ''ZZZ''))) = commits demo_db
   \<and> snd (serve demo_em demo_db (DELETE_region ''ZZZ'')) = demo_db"
proof -
  have h1: "validate region_fields False (JObj [(''NOC'', JStr ''NEW'')]) =
     Inl [(''region'', [''Missing data for required field.''])]"
    by code_simp
  have h2: "validate (event_fields demo_em) False (JObj [(''year'', JInt 2000)]) =
     Inl [(''type'', [''Missing data for required field.''])]"
    by code_simp
  have h3: "commits (snd (serve demo_em demo_db (DELETE_region ''ZZZ''))) = commits demo_db"
    by code_simp
  show ?thesis
    using h1 h2 h3
      at_most_one_commit [of demo_em demo_db "DELETE_region ''ZZZ''"
        "JObj [(''NOC'', JStr ''NEW'')]" "[(''region'', [''Missing data for required field.''])]"
        "JObj [(''year'', JInt 2000)]" "[(''type'', [''Missing data for required field.''])]"]
    by (simp add: handle_validation_error_def)
qed

text \<open>
  Claim C9: a POST, PATCH or DELETE request that succeeds has completed exactly one
  commit, and a GET request (list or by key, Region or Event) leaves the database
  identical.
\<close>

theorem commit_exactly_once_get_none:
  "(\<not> is_get req \<and> status (fst (serve em d req)) < 400 \<longrightarrow>
      commits (snd (serve em d req)) = Suc (commits d))
   \<and> (is_get req \<longrightarrow> snd (serve em d req) = d)"
  using serve_one_commit [of req em d] serve_get [of req em d] by blast

theorem commit_exactly_once_get_none_witness:
  "\<not> is_get (DELETE_region ''GBR'')
   \<and> status (fst (serve demo_em demo_db (DELETE_region ''GBR''))) < 400
   \<and> commits (snd (serve demo_em demo_db (DELETE_region ''GBR''))) = Suc (commits demo_db)
   \<and> is_get (GET_event 1)
   \<and> snd (serve demo_em demo_db (GET_event 1)) = demo_db"
proof -
  have h1: "\<not> is_get (DELETE_region ''GBR'')" by simp
  have h2: "status (fst (serve demo_em demo_db (DELETE_region ''GBR''))) < 400" by code_simp
  have h3: "is_get (GET_event 1)" by simp
  show ?thesis
    using h1 h2 h3
      commit_exactly_once_get_none [of "DELETE_region ''GBR''" demo_em demo_db]
      commit_exactly_once_get_none [of "GET_event 1" demo_em demo_db]
    by blast
qed

section \<open>The keys stay unique\<close>

text \<open>
  Every request keeps the keys of both tables unique, so the uniqueness assumed of the
  database below holds of every database reached from one that has it.
\<close>

lemma distinct_map_replace:
  assumes "distinct (map f xs)" and "f r = k \<or> f r \<notin> set (map f xs)"
  shows "distinct (map f (map (\<lambda>x. if f x = k then r else x) xs))"
proof -
  have "distinct (map (\<lambda>x. f (if f x = k then r else x)) xs)"
    using assms
  proof (induction xs)
    case Nil
    then show ?case by simp
  next
    case (Cons a xs)
    then have ih: "distinct (map (\<lambda>x. f (if f x = k then r else x)) xs)"
      by auto
    have "f (if f a = k then r else a) \<notin> (\<lambda>x. f (if f x = k then r else x)) ` set xs"
    proof
      assume "f (if f a = k then r else a) \<in> (\<lambda>x. f (if f x = k then r else x)) ` set xs"
      then obtain x where x: "x \<in> set xs"
        and e: "f (if f a = k then r else a) = f (if f x = k then r else x)"
        by blast
      from Cons.prems(1) x have ax: "f a \<noteq> f x" by auto
      from Cons.prems(2) x have rx: "f r = k \<or> f r \<noteq> f x" by auto
      from Cons.prems(2) have ra: "f r = k \<or> f r \<noteq> f a" by auto
      from e ax rx ra show False
        by (auto split: if_splits)
    qed
    with ih show ?case by simp
  qed
  then show ?thesis by (simp add: comp_def)
qed

lemma flush1_unique: "unique_keys d \<Longrightarrow> flush1 em w d = Inr d' \<Longrightarrow> unique_keys d'"
proof (cases w)
  case (InsRegion kv)
  assume "unique_keys d" "flush1 em w d = Inr d'"
  with InsRegion show ?thesis
    by (auto simp: unique_keys_def split: option.splits json.splits if_splits)
next
  case (UpdRegion k r)
  assume a: "unique_keys d" "flush1 em w d = Inr d'"
  with UpdRegion have "NOC r = k \<or> NOC r \<notin> set (map NOC (regions d))"
    by (auto split: if_splits)
  with a UpdRegion show ?thesis
    using distinct_map_replace [of NOC "regions d" r k]
    by (auto simp: unique_keys_def split: if_splits)
next
  case (DelRegion k)
  assume "unique_keys d" "flush1 em w d = Inr d'"
  with DelRegion show ?thesis
    by (auto simp: unique_keys_def distinct_map_filter)
next
  case (InsEvent kv)
  assume "unique_keys d" "flush1 em w d = Inr d'"
  with InsEvent show ?thesis
    by (auto simp: unique_keys_def Let_def split: if_splits)
next
  case (UpdEvent k e)
  assume a: "unique_keys d" "flush1 em w d = Inr d'"
  with UpdEvent have "id' e = k \<or> id' e \<notin> set (map id' (events d))"
    by (auto split: if_splits)
  with a UpdEvent show ?thesis
    using distinct_map_replace [of id' "events d" e k]
    by (auto simp: unique_keys_def split: if_splits)
next
  case (DelEvent k)
  assume "unique_keys d" "flush1 em w d = Inr d'"
  with DelEvent show ?thesis
    by (auto simp: unique_keys_def distinct_map_filter)
qed

lemma flush_unique: "unique_keys d \<Longrightarrow> flush em ws d = Inr d' \<Longrightarrow> unique_keys d'"
proof (induction ws arbitrary: d)
  case Nil
  then show ?case by simp
next
  case (Cons w ws)
  then show ?case by (auto split: sum.splits dest: flush1_unique)
qed

lemma commit_unique:
  assumes "unique_keys (db s)" and "commit em s = (r, s')"
  shows "unique_keys (db s')"
proof (cases "flush em (pending s) (db s)")
  case (Inl e)
  with assms show ?thesis by (auto simp: commit_def)
next
  case (Inr d)
  with assms(1) have "unique_keys d" by (auto dest: flush_unique)
  with Inr assms(2) show ?thesis by (auto simp: commit_def unique_keys_def)
qed


lemma route_unique: "unique_keys (db s) \<Longrightarrow> unique_keys (db (snd (route em s req)))"
proof (cases req)
  case GET_regions
  assume "unique_keys (db s)"
  with GET_regions show ?thesis by (simp add: get_regions_def)
next
  case (GET_region c)
  assume "unique_keys (db s)"
  with GET_region show ?thesis
    by (auto simp: get_region_def split: sum.splits exn.splits)
next
  case GET_events
  assume "unique_keys (db s)"
  with GET_events show ?thesis by (simp add: get_events_def)
next
  case (GET_event k)
  assume "unique_keys (db s)"
  with GET_event show ?thesis
    by (auto simp: get_event_def split: sum.splits)
next
  case (POST_events j)
  assume "unique_keys (db s)"
  with POST_events show ?thesis
    by (auto simp: add_event_def Let_def split: sum.splits exn.splits option.splits prod.splits
        dest: commit_unique [rotated])
next
  case (POST_regions j)
  assume "unique_keys (db s)"
  with POST_regions show ?thesis
    by (auto simp: add_region_def Let_def split: sum.splits exn.splits option.splits prod.splits
        dest: commit_unique [rotated])
next
  case (DELETE_event k)
  assume "unique_keys (db s)"
  with DELETE_event show ?thesis
    by (auto simp: delete_event_def Let_def split: sum.splits option.splits prod.splits
        dest: commit_unique [rotated])
next
  case (DELETE_region c)
  assume "unique_keys (db s)"
  with DELETE_region show ?thesis
    by (auto simp: delete_region_def Let_def split: sum.splits option.splits prod.splits
        dest: commit_unique [rotated])
next
  case (PATCH_event k j)
  assume "unique_keys (db s)"
  with PATCH_event show ?thesis
    by (auto simp: event_update_def Let_def split: sum.splits option.splits prod.splits
        dest: commit_unique [rotated])
next
  case (PATCH_region c j)
  assume "unique_keys (db s)"
  with PATCH_region show ?thesis
    by (auto simp: region_update_def Let_def split: sum.splits option.splits prod.splits
        dest: commit_unique [rotated])
qed

lemma serve_unique: "unique_keys d \<Longrightarrow> unique_keys (snd (serve em d req))"
  using route_unique [of "begin_session d" em req]
  by (simp add: serve_def split_beta begin_session_def)

section \<open>Deleting a stored entity\<close>

lemma filter_key_unique:
  "distinct (map f xs) \<Longrightarrow> k \<in> set (map f xs) \<Longrightarrow>
     \<exists>x. filter (\<lambda>y. f y = k) xs = [x] \<and> f x = k"
proof (induction xs)
  case Nil
  then show ?case by simp
next
  case (Cons a xs)
  show ?case
  proof (cases "f a = k")
    case True
    with Cons.prems have "k \<notin> f ` set xs" by auto
    then have "filter (\<lambda>y. f y = k) xs = []" by (auto simp: filter_empty_conv)
    with True show ?thesis by simp
  next
    case False
    with Cons show ?thesis by auto
  qed
qed

lemma length_filter_key:
  "distinct (map f xs) \<Longrightarrow> k \<in> set (map f xs) \<Longrightarrow>
     length xs = Suc (length (filter (\<lambda>y. f y \<noteq> k) xs))"
proof (induction xs)
  case Nil
  then show ?case by simp
next
  case (Cons a xs)
  show ?case
  proof (cases "f a = k")
    case True
    with Cons.prems have "k \<notin> f ` set xs" by auto
    then have "filter (\<lambda>y. f y \<noteq> k) xs = xs" by (auto simp: filter_id_conv)
    with True show ?thesis by simp
  next
    case False
    with Cons show ?thesis by auto
  qed
qed

lemma serve_delete_region:
  assumes "distinct (map NOC (regions d))" and "c \<in> set (map NOC (regions d))"
    and "string_segment c"
  shows "serve em d (DELETE_region c) =
     (Inr (200, JObj [(''message'', JStr (''Region '' @ c @ '' deleted''))]),
      d\<lparr>regions := filter (\<lambda>x. NOC x \<noteq> c) (regions d), commits := Suc (commits d)\<rparr>)"
proof -
  from assms obtain r where "filter (\<lambda>y. NOC y = c) (regions d) = [r]" and "NOC r = c"
    using filter_key_unique [of NOC "regions d" c] by blast
  with assms(3) show ?thesis
    by (simp add: serve_def delete_region_def begin_session_def commit_def)
qed

lemma serve_delete_event:
  assumes "distinct (map id' (events d))" and "k \<in> set (map id' (events d))"
    and "0 \<le> k" and "int64 k"
  shows "serve em d (DELETE_event k) =
     (Inr (200, JObj [(''message'', JStr (''Event '' @ show_int k @ '' deleted''))]),
      d\<lparr>events := filter (\<lambda>x. id' x \<noteq> k) (events d), commits := Suc (commits d)\<rparr>)"
proof -
  from assms obtain e where "filter (\<lambda>y. id' y = k) (events d) = [e]" and "id' e = k"
    using filter_key_unique [of id' "events d" k] by blast
  with assms(3,4) show ?thesis
    by (simp add: serve_def delete_event_def bind_param_def begin_session_def commit_def)
qed

lemma wf_db_int64: "wf_db d \<Longrightarrow> k \<in> set (map id' (events d)) \<Longrightarrow> int64 k"
  by (auto simp: wf_db_def list_all_iff)

text \<open>
  Claim C7 says that a DELETE of any stored entity answers 200 with the body
  \<^verbatim>\<open>{"message": "<Type> <key> deleted"}\<close>. Not every stored key can be put in the path:
  a Region whose NOC has a slash matches no rule (404), and an Event with a negative id
  does not match the \<^verbatim>\<open>int\<close> converter of the DELETE rule (405). Both rows are stored by
  valid POST requests.
\<close>

theorem delete_unroutable_key_counterexample:
  "snd (serve demo_em
     (snd (serve demo_em demo_db
        (POST_regions (JObj [(''NOC'', JStr ''A/B''), (''region'', JStr ''Slash'')]))))
     (POST_events (JObj [(''id'', JInt (- 5)), (''type'', JStr ''summer'')]))) = demo_db3
   \<and> wf_db demo_db3
   \<and> ''A/B'' \<in> set (map NOC (regions demo_db3))
   \<and> fst (serve demo_em demo_db3 (DELETE_region ''A/B'')) =
       Inr (404, JObj [(''error'', JStr (''404 Not Found: '' @ url_not_found))])
   \<and> - 5 \<in> set (map id' (events demo_db3))
   \<and> fst (serve demo_em demo_db3 (DELETE_event (- 5))) = Inl MethodNotAllowed
   \<and> status (fst (serve demo_em demo_db3 (DELETE_event (- 5)))) = 405"
  by code_simp

text \<open>
  Claim C7, amended: for every DELETE of a stored entity whose key the rule of the route
  takes (a NOC that is a non-empty segment without a slash, an Event id that is not
  negative), the answer is 200 with the body \<^verbatim>\<open>{"message": "<Type> <key> deleted"}\<close>, the key
  being the path key of the deleted entity: \<^verbatim>\<open>Region NEW deleted\<close>, \<^verbatim>\<open>Event 5 deleted\<close>.
\<close>

theorem delete_existing_response:
  "wf_db d \<Longrightarrow>
   (c \<in> set (map NOC (regions d)) \<and> string_segment c \<longrightarrow>
      fst (serve em d (DELETE_region c)) =
        Inr (200, JObj [(''message'', JStr (''Region '' @ c @ '' deleted''))]))
   \<and> (k \<in> set (map id' (events d)) \<and> 0 \<le> k \<longrightarrow>
      fst (serve em d (DELETE_event k)) =
        Inr (200, JObj [(''message'', JStr (''Event '' @ show_int k @ '' deleted''))]))"
  using wf_db_int64 [of d k]
  by (simp add: wf_db_def unique_keys_def serve_delete_region serve_delete_event)

theorem delete_existing_response_witness:
  "wf_db demo_db2
   \<and> ''FRA'' \<in> set (map NOC (regions demo_db2)) \<and> string_segment ''FRA''
   \<and> 2 \<in> set (map id' (events demo_db2)) \<and> (0::int) \<le> 2
   \<and> fst (serve demo_em demo_db2 (DELETE_region ''FRA'')) =
        Inr (200, JObj [(''message'', JStr ''Region FRA deleted'')])
   \<and> fst (serve demo_em demo_db2 (DELETE_event 2)) =
        Inr (200, JObj [(''message'', JStr ''Event 2 deleted'')])"
proof -
  have h1: "wf_db demo_db2" by code_simp
  have h2: "''FRA'' \<in> set (map NOC (regions demo_db2)) \<and> string_segment ''FRA''" by code_simp
  have h3: "2 \<in> set (map id' (events demo_db2)) \<and> (0::int) \<le> 2" by code_simp
  have h4: "show_int 2 = ''2''" by code_simp
  show ?thesis
    using h1 h2 h3 h4
      delete_existing_response [OF h1, where c = "''FRA''" and k = 2 and em = demo_em]
    by simp
qed

text \<open>
  Claim C10 says that a DELETE of any stored Region or Event removes the row of that key.
  For a key that the rule of the route does not take, the request never reaches the view
  and the row stays.
\<close>

theorem delete_unroutable_key_keeps_row_counterexample:
  "wf_db demo_db3
   \<and> ''A/B'' \<in> set (map NOC (regions demo_db3))
   \<and> snd (serve demo_em demo_db3 (DELETE_region ''A/B'')) = demo_db3
   \<and> - 5 \<in> set (map id' (events demo_db3))
   \<and> snd (serve demo_em demo_db3 (DELETE_event (- 5))) = demo_db3
   \<and> snd (serve demo_em
       (snd (serve demo_em demo_db
          (POST_regions (JObj [(''NOC'', JStr ''A/B''), (''region'', JStr ''Slash'')]))))
       (POST_events (JObj [(''id'', JInt (- 5)), (''type'', JStr ''summer'')]))) = demo_db3"
  by code_simp

text \<open>
  Claim C10, amended: a DELETE of a stored Region whose NOC the rule takes removes exactly
  the one row whose NOC is the path key, every other Region and every Event staying as it
  was; a DELETE of a stored Event whose id is not negative removes exactly the one row
  whose id is the path key, every other Event and every Region staying as it was.
\<close>

theorem delete_removes_one_row:
  "wf_db d \<Longrightarrow>
   (c \<in> set (map NOC (regions d)) \<and> string_segment c \<longrightarrow>
      regions (snd (serve em d (DELETE_region c))) = filter (\<lambda>x. NOC x \<noteq> c) (regions d)
      \<and> length (regions d) = Suc (length (regions (snd (serve em d (DELETE_region c)))))
      \<and> events (snd (serve em d (DELETE_region c))) = events d)
   \<and> (k \<in> set (map id' (events d)) \<and> 0 \<le> k \<longrightarrow>
      events (snd (serve em d (DELETE_event k))) = filter (\<lambda>x. id' x \<noteq> k) (events d)
      \<and> length (events d) = Suc (length (events (snd (serve em d (DELETE_event k)))))
      \<and> regions (snd (serve em d (DELETE_event k))) = regions d)"
  using length_filter_key [of NOC "regions d" c] length_filter_key [of id' "events d" k]
    wf_db_int64 [of d k]
  by (simp add: wf_db_def unique_keys_def serve_delete_region serve_delete_event)

theorem delete_removes_one_row_witness:
  "wf_db demo_db2
   \<and> ''GBR'' \<in> set (map NOC (regions demo_db2)) \<and> string_segment ''GBR''
   \<and> 1 \<in> set (map id' (events demo_db2)) \<and> (0::int) \<le> 1
   \<and> regions (snd (serve demo_em demo_db2 (DELETE_region ''GBR''))) =
       [\<lparr>NOC = ''FRA'', region = ''France'', notes' = Some ''host''\<rparr>]
   \<and> events (snd (serve demo_em demo_db2 (DELETE_region ''GBR''))) = events demo_db2
   \<and> events (snd (serve demo_em demo_db2 (DELETE_event 1))) =
       [\<lparr>id' = 2, attrs = [(''type'', JStr ''winter''), (''year'', JInt 1976)]\<rparr>]
   \<and> regions (snd (serve demo_em demo_db2 (DELETE_event 1))) = regions demo_db2"
proof -
  have h1: "wf_db demo_db2" by code_simp
  have h2: "''GBR'' \<in> set (map NOC (regions demo_db2)) \<and> string_segment ''GBR''" by code_simp
  have h3: "1 \<in> set (map id' (events demo_db2)) \<and> (0::int) \<le> 1" by code_simp
  have h4: "filter (\<lambda>x. NOC x \<noteq> ''GBR'') (regions demo_db2) =
      [\<lparr>NOC = ''FRA'', region = ''France'', notes' = Some ''host''\<rparr>]" by code_simp
  have h5: "filter (\<lambda>x. id' x \<noteq> 1) (events demo_db2) =
      [\<lparr>id' = 2, attrs = [(''type'', JStr ''winter''), (''year'', JInt 1976)]\<rparr>]" by code_simp
  show ?thesis
    using h1 h2 h3 h4 h5
      delete_removes_one_row [OF h1, where c = "''GBR''" and k = 1 and em = demo_em]
    by simp
qed

section \<open>POST with a payload that fails validation\<close>

lemma missing_required:
  assumes "f \<in> set fs" and "required f" and "map_of kv (fname f) = None"
  shows "\<exists>errs. validate fs False (JObj kv) = Inl errs \<and>
           (fname f, [''Missing data for required field.'']) \<in> set errs"
proof -
  from assms(2,3) have "field_errors False kv f = [(fname f, [''Missing data for required field.''])]"
    by (simp add: field_errors_def)
  with assms(1) have "(fname f, [''Missing data for required field.''])
      \<in> set (concat (map (field_errors False kv) fs))"
    by force
  then have m: "(fname f, [''Missing data for required field.''])
      \<in> set (concat (map (field_errors False kv) fs) @ unknown_errors fs kv)"
    by simp
  then have "concat (map (field_errors False kv) fs) @ unknown_errors fs kv \<noteq> []"
    by force
  with m show ?thesis
    by (simp add: validate_def Let_def)
qed

lemma handle_validation_error_member:
  "(k, ms) \<in> set errs \<Longrightarrow>
     \<exists>body. handle_validation_error errs = (400, JObj body) \<and> (k, JArr (map JStr ms)) \<in> set body"
  by (force simp: handle_validation_error_def)

text \<open>
  Claim C5: a POST whose payload fails full-schema validation answers 400 with a JSON
  object that maps each offending field name to the list of its error strings, and
  changes nothing; a payload that lacks a mandatory field fails validation, and the
  missing field is named in that body.
\<close>

theorem post_invalid_payload:
  "(validate region_fields False j = Inl errs \<longrightarrow>
      serve em d (POST_regions j) =
        (Inr (400, JObj (map (\<lambda>(k, ms). (k, JArr (map JStr ms))) errs)), d))
   \<and> (validate (event_fields em) False j' = Inl errs' \<longrightarrow>
      serve em d (POST_events j') =
        (Inr (400, JObj (map (\<lambda>(k, ms). (k, JArr (map JStr ms))) errs')), d))
   \<and> (f \<in> set region_fields \<and> required f \<and> map_of kv (fname f) = None \<longrightarrow>
      (\<exists>body. serve em d (POST_regions (JObj kv)) = (Inr (400, JObj body), d) \<and>
         (fname f, JArr [JStr ''Missing data for required field.'']) \<in> set body))
   \<and> (g \<in> set (event_fields em) \<and> required g \<and> map_of kv' (fname g) = None \<longrightarrow>
      (\<exists>body. serve em d (POST_events (JObj kv')) = (Inr (400, JObj body), d) \<and>
         (fname g, JArr [JStr ''Missing data for required field.'']) \<in> set body))"
proof (intro conjI impI)
  assume "validate region_fields False j = Inl errs"
  then show "serve em d (POST_regions j) =
        (Inr (400, JObj (map (\<lambda>(k, ms). (k, JArr (map JStr ms))) errs)), d)"
    by (simp add: serve_post_regions_invalid handle_validation_error_def)
next
  assume "validate (event_fields em) False j' = Inl errs'"
  then show "serve em d (POST_events j') =
        (Inr (400, JObj (map (\<lambda>(k, ms). (k, JArr (map JStr ms))) errs')), d)"
    by (simp add: serve_post_events_invalid handle_validation_error_def)
next
  assume "f \<in> set region_fields \<and> required f \<and> map_of kv (fname f) = None"
  then obtain es where v: "validate region_fields False (JObj kv) = Inl es"
    and m: "(fname f, [''Missing data for required field.'']) \<in> set es"
    using missing_required [of f region_fields kv] by blast
  from m obtain body where "handle_validation_error es = (400, JObj body)"
    and "(fname f, JArr (map JStr [''Missing data for required field.''])) \<in> set body"
    using handle_validation_error_member by blast
  with v show "\<exists>body. serve em d (POST_regions (JObj kv)) = (Inr (400, JObj body), d) \<and>
         (fname f, JArr [JStr ''Missing data for required field.'']) \<in> set body"
    by (simp add: serve_post_regions_invalid)
next
  assume "g \<in> set (event_fields em) \<and> required g \<and> map_of kv' (fname g) = None"
  then obtain es where v: "validate (event_fields em) False (JObj kv') = Inl es"
    and m: "(fname g, [''Missing data for required field.'']) \<in> set es"
    using missing_required [of g "event_fields em" kv'] by blast
  from m obtain body where "handle_validation_error es = (400, JObj body)"
    and "(fname g, JArr (map JStr [''Missing data for required field.''])) \<in> set body"
    using handle_validation_error_member by blast
  with v show "\<exists>body. serve em d (POST_events (JObj kv')) = (Inr (400, JObj body), d) \<and>
         (fname g, JArr [JStr ''Missing data for required field.'']) \<in> set body"
    by (simp add: serve_post_events_invalid)
qed

theorem post_invalid_payload_witness:
  "validate region_fields False (JObj [(''NOC'', JStr ''NEW'')]) =
     Inl [(''region'', [''Missing data for required field.''])]
   \<and> validate (event_fields demo_em) False (JObj [(''year'', JInt 2000)]) =
     Inl [(''type'', [''Missing data for required field.''])]
   \<and> serve demo_em demo_db (POST_regions (JObj [(''NOC'', JStr ''NEW'')])) =
     (Inr (400, JObj [(''region'', JArr [JStr ''Missing data for required field.''])]), demo_db)
   \<and> serve demo_em demo_db (POST_events (JObj [(''year'', JInt 2000)])) =
     (Inr (400, JObj [(''type'', JArr [JStr ''Missing data for required field.''])]), demo_db)
   \<and> (\<exists>body. serve demo_em demo_db (POST_regions (JObj [(''NOC'', JStr ''NEW'')])) =
                (Inr (400, JObj body), demo_db) \<and>
              (''region'', JArr [JStr ''Missing data for required field.'']) \<in> set body)
   \<and> (\<exists>body. serve demo_em demo_db (POST_events (JObj [(''year'', JInt 2000)])) =
                (Inr (400, JObj body), demo_db) \<and>
              (''type'', JArr [JStr ''Missing data for required field.'']) \<in> set body)"
proof -
  let ?f = "\<lparr>fname = ''region'', ftype = TStr, required = True, allow_none = False\<rparr>"
  let ?g = "\<lparr>fname = ''type'', ftype = TStr, required = True, allow_none = False\<rparr>"
  have h1: "validate region_fields False (JObj [(''NOC'', JStr ''NEW'')]) =
     Inl [(''region'', [''Missing data for required field.''])]"
    by code_simp
  have h2: "validate (event_fields demo_em) False (JObj [(''year'', JInt 2000)]) =
     Inl [(''type'', [''Missing data for required field.''])]"
    by code_simp
  have h3: "?f \<in> set region_fields \<and> required ?f \<and>
      map_of [(''NOC'', JStr ''NEW'')] (fname ?f) = None"
    by (simp add: region_fields_def)
  have h4: "?g \<in> set (event_fields demo_em) \<and> required ?g \<and>
      map_of [(''year'', JInt 2000)] (fname ?g) = None"
    by (simp add: event_fields_def demo_em_def)
  show ?thesis
    using h1 h2 h3 h4
      post_invalid_payload [of "JObj [(''NOC'', JStr ''NEW'')]"
        "[(''region'', [''Missing data for required field.''])]" demo_em demo_db
        "JObj [(''year'', JInt 2000)]" "[(''type'', [''Missing data for required field.''])]"
        ?f "[(''NOC'', JStr ''NEW'')]" ?g "[(''year'', JInt 2000)]"]
    by simp
qed

section \<open>POST with a valid payload\<close>




















end
